theory Spec2Isabelle
  imports Main "HOL-Library.AList"
begin

section \<open>The Sphinx configuration module \<open>docs/conf.py\<close>\<close>

text \<open>
  The repository is one Python module, \<^verbatim>\<open>docs/conf.py\<close>, which Sphinx executes to
  obtain its configuration. The module is straight-line code: two imports, one call of
  \<^verbatim>\<open>subprocess.call\<close>, and nineteen assignments of literals. It is modelled as the list of
  its top-level statements, in source order, and an executor that threads the module
  namespace and a trace of the observable steps through them.
\<close>

subsection \<open>Values\<close>

text \<open>
  The Python objects the module can create or name. Every dictionary of the module is
  keyed by strings, so a dictionary is an association list from strings, in insertion
  order. \<open>VModule m\<close> is the module object an \<^verbatim>\<open>import m\<close> binds, \<open>VMember m a\<close> the
  object named \<open>a\<close> of module \<open>m\<close>.
\<close>

datatype pyval =
    VStr string
  | VInt int
  | VBool bool
  | VList "pyval list"
  | VTuple "pyval list"
  | VDict "(string \<times> pyval) list"
  | VModule string
  | VMember string string

subsection \<open>Syntax\<close>

text \<open>
  Expressions. \<open>EParen e\<close> is a parenthesised expression \<^verbatim>\<open>(e)\<close>; \<open>ETuple es\<close> is a
  tuple display, which Python requires to contain a comma (or to be empty).
\<close>

datatype expr =
    EStr string
  | ENum int
  | ETrue
  | EFalse
  | EList "expr list"
  | ETuple "expr list"
  | EDict "(expr \<times> expr) list"
  | EParen expr
  | EName string
  | EAttr expr string
  | ECall expr "expr list" "(string \<times> expr) list"

text \<open>
  Statements. The first four forms are the ones the module is written in. The compound
  forms belong to the grammar as well, so that their absence from the module is a
  property of the module and not of this type.
\<close>

datatype stmt =
    SImportFrom string "string list"
  | SImport "string list"
  | SExpr expr
  | SAssign string expr
  | SFunctionDef string "stmt list"
  | SClassDef string "stmt list"
  | SIf expr "stmt list" "stmt list"
  | SWhile expr "stmt list"
  | SFor string expr "stmt list"

subsection \<open>State, environment and errors\<close>

text \<open>
  The observable steps of an evaluation, in the order they happen: a module import, a
  command handed to the shell, and the assignment of a value to a top-level name.
\<close>

datatype event =
    Imported string
  | Spawned string
  | Assigned string pyval

record state =
  globals :: "(string \<times> pyval) list"
  trace :: "event list"

text \<open>
  The environment of an evaluation is what lies outside the module. A host says, for each
  command line handed to the shell, what becomes of it: the shell runs it and reports an
  exit status (a negative one stands for death by a signal), or the shell itself cannot
  be started, which \<^verbatim>\<open>subprocess.call\<close> raises as an \<^verbatim>\<open>OSError\<close>.
\<close>

datatype shell_outcome =
    Exited int
  | NotStarted

type_synonym host = "string \<Rightarrow> shell_outcome"

text \<open>
  A world gives only exit statuses: it stands for the host on which the shell starts
  every command and the command exits with that status.
\<close>

type_synonym world = "string \<Rightarrow> int"

definition started :: "world \<Rightarrow> host" where
  "started w cmd = Exited (w cmd)"

text \<open>The environment in which every command exits with status 0.\<close>

definition all_succeed :: world where
  "all_succeed cmd = 0"

text \<open>
  The environment without Doxygen: the shell finds no such command and reports 127.
\<close>

definition doxygen_missing :: world where
  "doxygen_missing cmd = 127"

text \<open>The host on which no shell can be started.\<close>

definition no_shell :: host where
  "no_shell cmd = NotStarted"

datatype error =
    NameError string
  | NotCallable
  | OSError
  | Unsupported

definition init_state :: state where
  "init_state = \<lparr>globals = [], trace = []\<rparr>"

definition bind_name :: "string \<Rightarrow> pyval \<Rightarrow> state \<Rightarrow> state" where
  "bind_name n v s = s\<lparr>globals := AList.update n v (globals s)\<rparr>"

definition record_event :: "event \<Rightarrow> state \<Rightarrow> state" where
  "record_event ev s = s\<lparr>trace := trace s @ [ev]\<rparr>"

subsection \<open>Evaluation of expressions\<close>

text \<open>
  \<^verbatim>\<open>subprocess.call(cmd, shell=True)\<close> hands \<open>cmd\<close> to the shell, waits for it and returns
  its exit status; it does not raise on a non-zero status. A command the shell cannot
  find is a non-zero status as well (127), not an exception. When the shell itself cannot
  be started, the call raises \<^verbatim>\<open>OSError\<close>; the module does not catch it. Only this
  calling convention, the one the module uses, is given a meaning.
\<close>

definition subprocess_call ::
  "host \<Rightarrow> state \<Rightarrow> pyval list \<Rightarrow> (string \<times> pyval) list \<Rightarrow> error + (pyval \<times> state)" where
  "subprocess_call h s args kwargs =
     (case args of
        [VStr cmd] \<Rightarrow>
          (case kwargs of
             [(k, VBool b)] \<Rightarrow>
               if k = ''shell'' \<and> b
               then (case h cmd of
                       Exited rc \<Rightarrow> Inr (VInt rc, record_event (Spawned cmd) s)
                     | NotStarted \<Rightarrow> Inl OSError)
               else Inl Unsupported
           | _ \<Rightarrow> Inl Unsupported)
      | _ \<Rightarrow> Inl Unsupported)"

fun call_value ::
  "host \<Rightarrow> state \<Rightarrow> pyval \<Rightarrow> pyval list \<Rightarrow> (string \<times> pyval) list \<Rightarrow> error + (pyval \<times> state)" where
  "call_value h s (VMember m f) args kwargs =
     (if m = ''subprocess'' \<and> f = ''call'' then subprocess_call h s args kwargs
      else Inl Unsupported)"
| "call_value h s (VStr x) args kwargs = Inl NotCallable"
| "call_value h s (VInt n) args kwargs = Inl NotCallable"
| "call_value h s (VBool b) args kwargs = Inl NotCallable"
| "call_value h s (VList vs) args kwargs = Inl NotCallable"
| "call_value h s (VTuple vs) args kwargs = Inl NotCallable"
| "call_value h s (VDict d) args kwargs = Inl NotCallable"
| "call_value h s (VModule m) args kwargs = Inl NotCallable"

text \<open>
  Expressions are evaluated left to right, the state threaded through, since a call inside
  a display would act on it. A parenthesised expression has the value of the expression
  inside. A dictionary display inserts its items in order, a later item replacing the
  value of an equal earlier key.
\<close>

function eval :: "host \<Rightarrow> state \<Rightarrow> expr \<Rightarrow> error + (pyval \<times> state)"
  and eval_list :: "host \<Rightarrow> state \<Rightarrow> expr list \<Rightarrow> error + (pyval list \<times> state)"
  and eval_items ::
    "host \<Rightarrow> state \<Rightarrow> (string \<times> pyval) list \<Rightarrow> (expr \<times> expr) list \<Rightarrow>
      error + ((string \<times> pyval) list \<times> state)"
  and eval_kwargs ::
    "host \<Rightarrow> state \<Rightarrow> (string \<times> expr) list \<Rightarrow> error + ((string \<times> pyval) list \<times> state)"
where
  "eval h s (EStr x) = Inr (VStr x, s)"
| "eval h s (ENum n) = Inr (VInt n, s)"
| "eval h s ETrue = Inr (VBool True, s)"
| "eval h s EFalse = Inr (VBool False, s)"
| "eval h s (EList es) =
     (case eval_list h s es of
        Inl err \<Rightarrow> Inl err
      | Inr (vs, s1) \<Rightarrow> Inr (VList vs, s1))"
| "eval h s (ETuple es) =
     (case eval_list h s es of
        Inl err \<Rightarrow> Inl err
      | Inr (vs, s1) \<Rightarrow> Inr (VTuple vs, s1))"
| "eval h s (EDict kvs) =
     (case eval_items h s [] kvs of
        Inl err \<Rightarrow> Inl err
      | Inr (d, s1) \<Rightarrow> Inr (VDict d, s1))"
| "eval h s (EParen e) = eval h s e"
| "eval h s (EName n) =
     (case map_of (globals s) n of
        None \<Rightarrow> Inl (NameError n)
      | Some v \<Rightarrow> Inr (v, s))"
| "eval h s (EAttr e a) =
     (case eval h s e of
        Inl err \<Rightarrow> Inl err
      | Inr (v, s1) \<Rightarrow>
          (case v of
             VModule m \<Rightarrow> Inr (VMember m a, s1)
           | _ \<Rightarrow> Inl Unsupported))"
| "eval h s (ECall f args kwargs) =
     (case eval h s f of
        Inl err \<Rightarrow> Inl err
      | Inr (fv, s1) \<Rightarrow>
          (case eval_list h s1 args of
             Inl err \<Rightarrow> Inl err
           | Inr (avs, s2) \<Rightarrow>
               (case eval_kwargs h s2 kwargs of
                  Inl err \<Rightarrow> Inl err
                | Inr (kvs, s3) \<Rightarrow> call_value h s3 fv avs kvs)))"
| "eval_list h s [] = Inr ([], s)"
| "eval_list h s (e # es) =
     (case eval h s e of
        Inl err \<Rightarrow> Inl err
      | Inr (v, s1) \<Rightarrow>
          (case eval_list h s1 es of
             Inl err \<Rightarrow> Inl err
           | Inr (vs, s2) \<Rightarrow> Inr (v # vs, s2)))"
| "eval_items h s d [] = Inr (d, s)"
| "eval_items h s d ((k, v) # kvs) =
     (case eval h s k of
        Inl err \<Rightarrow> Inl err
      | Inr (kv, s1) \<Rightarrow>
          (case kv of
             VStr key \<Rightarrow>
               (case eval h s1 v of
                  Inl err \<Rightarrow> Inl err
                | Inr (vv, s2) \<Rightarrow> eval_items h s2 (AList.update key vv d) kvs)
           | _ \<Rightarrow> Inl Unsupported))"
| "eval_kwargs h s [] = Inr ([], s)"
| "eval_kwargs h s ((k, e) # kes) =
     (case eval h s e of
        Inl err \<Rightarrow> Inl err
      | Inr (v, s1) \<Rightarrow>
          (case eval_kwargs h s1 kes of
             Inl err \<Rightarrow> Inl err
           | Inr (kvs, s2) \<Rightarrow> Inr ((k, v) # kvs, s2)))"
  by pat_completeness auto

text \<open>Every recursive call is on a proper part of the expression.\<close>

termination
  by (relation "measure (\<lambda>x. case x of
         Inl (Inl (h, s, e)) \<Rightarrow> size e
       | Inl (Inr (h, s, es)) \<Rightarrow> size_list size es
       | Inr (Inl (h, s, d, kvs)) \<Rightarrow> size_list (size_prod size size) kvs
       | Inr (Inr (h, s, kes)) \<Rightarrow> size_list (size_prod (\<lambda>k. 0) size) kes)") auto

subsection \<open>Execution of statements\<close>

text \<open>
  \<^verbatim>\<open>from m import a, b\<close> imports \<open>m\<close> and binds each name to that member of \<open>m\<close>;
  \<^verbatim>\<open>import m, n\<close> imports each module in turn and binds it to its own name. The imports
  are taken to succeed: \<^verbatim>\<open>subprocess\<close> and \<^verbatim>\<open>os\<close> are part of every Python, and Sphinx is
  the program that executes the module.
\<close>

fun import_names :: "string \<Rightarrow> string list \<Rightarrow> state \<Rightarrow> state" where
  "import_names m [] s = s"
| "import_names m (n # ns) s = import_names m ns (bind_name n (VMember m n) s)"

fun import_modules :: "string list \<Rightarrow> state \<Rightarrow> state" where
  "import_modules [] s = s"
| "import_modules (m # ms) s =
     import_modules ms (bind_name m (VModule m) (record_event (Imported m) s))"

text \<open>
  An expression statement evaluates its expression and drops the value; an assignment
  binds the value to the name. The executor gives a meaning to the simple statements
  only: a compound statement ends the run with \<open>Unsupported\<close>.
\<close>

fun exec_stmt :: "host \<Rightarrow> state \<Rightarrow> stmt \<Rightarrow> error + state" where
  "exec_stmt h s (SImportFrom m ns) = Inr (import_names m ns (record_event (Imported m) s))"
| "exec_stmt h s (SImport ms) = Inr (import_modules ms s)"
| "exec_stmt h s (SExpr e) =
     (case eval h s e of
        Inl err \<Rightarrow> Inl err
      | Inr (v, s1) \<Rightarrow> Inr s1)"
| "exec_stmt h s (SAssign n e) =
     (case eval h s e of
        Inl err \<Rightarrow> Inl err
      | Inr (v, s1) \<Rightarrow> Inr (record_event (Assigned n v) (bind_name n v s1)))"
| "exec_stmt h s (SFunctionDef n body) = Inl Unsupported"
| "exec_stmt h s (SClassDef n body) = Inl Unsupported"
| "exec_stmt h s (SIf c body orelse) = Inl Unsupported"
| "exec_stmt h s (SWhile c body) = Inl Unsupported"
| "exec_stmt h s (SFor n e body) = Inl Unsupported"

fun exec_block :: "host \<Rightarrow> state \<Rightarrow> stmt list \<Rightarrow> error + state" where
  "exec_block h s [] = Inr s"
| "exec_block h s (st # sts) =
     (case exec_stmt h s st of
        Inl err \<Rightarrow> Inl err
      | Inr s1 \<Rightarrow> exec_block h s1 sts)"

subsection \<open>The module\<close>

text \<open>The value of \<^verbatim>\<open>rst_prolog\<close>: a triple-quoted string, so its line breaks are part of it.\<close>

definition rst_prolog_text :: string where
  "rst_prolog_text =
     ''\<newline>'' @
     ''.. role:: cpp(code)\<newline>'' @
     ''    :language: cpp\<newline>'' @
     ''    :class: highlight\<newline>'' @
     ''\<newline>'' @
     ''.. role:: rust(code)\<newline>'' @
     ''    :language: rust\<newline>'' @
     ''    :class: highlight\<newline>'' @
     ''\<newline>'' @
     ''.. role:: cmake(code)\<newline>'' @
     ''    :language: cmake\<newline>'' @
     ''    :class: highlight\<newline>'' @
     ''\<newline>'' @
     ''.. role:: bash(code)\<newline>'' @
     ''    :language: bash\<newline>'' @
     ''    :class: highlight\<newline>'' @
     ''\<newline>'' @
     ''.. role:: lua(code)\<newline>'' @
     ''    :language: lua\<newline>'' @
     ''    :class: highlight\<newline>'' @
     ''\<newline>'' @
     ''.. role:: xmake(code)\<newline>'' @
     ''    :language: lua\<newline>'' @
     ''    :class: highlight\<newline>''"

text \<open>The statements of \<^verbatim>\<open>conf.py\<close>, lines 9 to 117, one entry per statement.\<close>

definition conf_module :: "stmt list" where
  "conf_module =
   [ SImportFrom ''sphinx.builders.html'' [''StandaloneHTMLBuilder''],
     SImport [''subprocess'', ''os''],
     SExpr (ECall (EAttr (EName ''subprocess'') ''call'')
              [EStr ''doxygen Doxyfile''] [(''shell'', ETrue)]),
     SAssign ''project'' (EStr ''hyperion::mpl''),
     SAssign ''copyright'' (EStr ''2024, Braxton Salyer <braxtonsalyer@gmail.com>''),
     SAssign ''author'' (EStr ''Braxton Salyer <braxtonsalyer@gmail.com>''),
     SAssign ''extensions'' (EList
       [ EStr ''sphinx.ext.autodoc'',
         EStr ''sphinx.ext.autosummary'',
         EStr ''sphinx.ext.intersphinx'',
         EStr ''sphinx.ext.autosectionlabel'',
         EStr ''sphinx.ext.todo'',
         EStr ''sphinx.ext.coverage'',
         EStr ''sphinx.ext.mathjax'',
         EStr ''sphinx.ext.ifconfig'',
         EStr ''sphinx.ext.viewcode'',
         EStr ''sphinx.ext.inheritance_diagram'',
         EStr ''sphinx_sitemap'',
         EStr ''breathe'',
         EStr ''myst_parser'' ]),
     SAssign ''myst_enable_extensions'' (EList
       [ EStr ''amsmath'',
         EStr ''colon_fence'',
         EStr ''deflist'',
         EStr ''dollarmath'',
         EStr ''fieldlist'',
         EStr ''html_admonition'',
         EStr ''html_image'',
         EStr ''linkify'',
         EStr ''replacements'',
         EStr ''smartquotes'',
         EStr ''strikethrough'',
         EStr ''substitution'',
         EStr ''tasklist'' ]),
     SAssign ''templates_path'' (EList [EStr ''_templates'']),
     SAssign ''exclude_patterns'' (EList [EStr ''_build'', EStr ''Thumbs.db'', EStr ''.DS_Store'']),
     SAssign ''highlight_language'' (EStr ''c++''),
     SAssign ''autosummary_generate'' ETrue,
     SAssign ''html_baseurl'' (EStr ''braxtons12.github.io/hyperion_mpl''),
     SAssign ''html_theme'' (EStr ''pydata_sphinx_theme''),
     SAssign ''html_theme_options'' (EDict
       [ (EStr ''github_url'', EStr ''https://github.com/braxtons12/hyperion_mpl''),
         (EStr ''header_links_before_dropdown'', ENum 8),
         (EStr ''show_toc_level'', ENum 1),
         (EStr ''navigation_depth'', ENum 2),
         (EStr ''show_nav_level'', ENum 0),
         (EStr ''pygment_light_style'', EStr ''manni''),
         (EStr ''pygment_dark_style'', EStr ''one-dark''),
         (EStr ''navbar_start'', EList [EStr ''navbar-logo'', EStr ''theme-switcher'']),
         (EStr ''navbar_center'', EList [EStr ''navbar-nav'']),
         (EStr ''navbar_end'', EList [EStr ''navbar-icon-links'']),
         (EStr ''secondary_sidebar_items'', EList [EStr ''page-toc'']),
         (EStr ''footer_items'',
            EList [EStr ''copyright'', EStr ''last-updated'', EStr ''sphinx-version'']) ]),
     SAssign ''html_sidebars'' (EDict
       [ (EStr ''**'',
            EList [EStr ''search-field'', EStr ''navbar-nav'', EStr ''sidebar-nav-bs'',
                   EStr ''sidebar-ethical-ads'']) ]),
     SAssign ''html_context'' (EDict [(EStr ''default_mode'', EStr ''dark'')]),
     SAssign ''html_static_path'' (EList [EStr ''_static'']),
     SAssign ''rst_prolog'' (EStr rst_prolog_text),
     SAssign ''breathe_projects'' (EDict [(EStr ''hyperion::mpl'', EStr ''_build/xml'')]),
     SAssign ''breathe_default_project'' (EStr ''hyperion::mpl''),
     SAssign ''breathe_default_members'' (EParen (EStr ''members'')) ]"

text \<open>
  Evaluating the module on a host: its statements run in order from the empty namespace.
  \<open>conf_py w\<close> is the evaluation in which the shell starts and reports the statuses \<open>w\<close>.
\<close>

definition conf_py_on :: "host \<Rightarrow> error + state" where
  "conf_py_on h = exec_block h init_state conf_module"

definition conf_py :: "world \<Rightarrow> error + state" where
  "conf_py w = conf_py_on (started w)"

subsection \<open>Observations on a run\<close>

text \<open>The assignments and the shell commands of a trace, each in the order they happened.\<close>

fun assigned :: "event list \<Rightarrow> (string \<times> pyval) list" where
  "assigned [] = []"
| "assigned (Assigned n v # evs) = (n, v) # assigned evs"
| "assigned (Imported m # evs) = assigned evs"
| "assigned (Spawned c # evs) = assigned evs"


text \<open>The part of a trace before its first shell command, and the part after it.\<close>

fun before_spawn :: "event list \<Rightarrow> event list" where
  "before_spawn [] = []"
| "before_spawn (Spawned c # evs) = []"
| "before_spawn (Imported m # evs) = Imported m # before_spawn evs"
| "before_spawn (Assigned n v # evs) = Assigned n v # before_spawn evs"

fun after_spawn :: "event list \<Rightarrow> event list" where
  "after_spawn [] = []"
| "after_spawn (Spawned c # evs) = evs"
| "after_spawn (Imported m # evs) = after_spawn evs"
| "after_spawn (Assigned n v # evs) = after_spawn evs"


definition assigned_values :: "error + state \<Rightarrow> pyval list" where
  "assigned_values r = (case r of Inl err \<Rightarrow> [] | Inr s \<Rightarrow> map snd (assigned (trace s)))"

subsection \<open>Shapes of values\<close>






subsection \<open>Shapes of statements\<close>

text \<open>
  A constant literal: a string, a number, \<^verbatim>\<open>True\<close> or \<^verbatim>\<open>False\<close>, or a display or
  parenthesised expression built from constant literals. A name, an attribute reference
  and a call are not.
\<close>

fun literal :: "expr \<Rightarrow> bool" where
  "literal (EStr x) = True"
| "literal (ENum n) = True"
| "literal ETrue = True"
| "literal EFalse = True"
| "literal (EList es) = list_all literal es"
| "literal (ETuple es) = list_all literal es"
| "literal (EDict kvs) = list_all (\<lambda>(k, v). literal k \<and> literal v) kvs"
| "literal (EParen e) = literal e"
| "literal (EName n) = False"
| "literal (EAttr e a) = False"
| "literal (ECall f args kwargs) = False"

text \<open>The expression \<^verbatim>\<open>subprocess.call("doxygen Doxyfile", shell=True)\<close>.\<close>

definition doxygen_call :: expr where
  "doxygen_call =
     ECall (EAttr (EName ''subprocess'') ''call'') [EStr ''doxygen Doxyfile''] [(''shell'', ETrue)]"

fun compound :: "stmt \<Rightarrow> bool" where
  "compound (SImportFrom m ns) = False"
| "compound (SImport ms) = False"
| "compound (SExpr e) = False"
| "compound (SAssign n e) = False"
| "compound (SFunctionDef n body) = True"
| "compound (SClassDef n body) = True"
| "compound (SIf c body orelse) = True"
| "compound (SWhile c body) = True"
| "compound (SFor n e body) = True"

fun is_expr_stmt :: "stmt \<Rightarrow> bool" where
  "is_expr_stmt (SImportFrom m ns) = False"
| "is_expr_stmt (SImport ms) = False"
| "is_expr_stmt (SExpr e) = True"
| "is_expr_stmt (SAssign n e) = False"
| "is_expr_stmt (SFunctionDef n body) = False"
| "is_expr_stmt (SClassDef n body) = False"
| "is_expr_stmt (SIf c body orelse) = False"
| "is_expr_stmt (SWhile c body) = False"
| "is_expr_stmt (SFor n e body) = False"

text \<open>An import, an assignment of a constant literal, or the call of Doxygen.\<close>

fun declarative :: "stmt \<Rightarrow> bool" where
  "declarative (SImportFrom m ns) = True"
| "declarative (SImport ms) = True"
| "declarative (SExpr e) = (e = doxygen_call)"
| "declarative (SAssign n e) = literal e"
| "declarative (SFunctionDef n body) = False"
| "declarative (SClassDef n body) = False"
| "declarative (SIf c body orelse) = False"
| "declarative (SWhile c body) = False"
| "declarative (SFor n e body) = False"

section \<open>The run of the module\<close>

text \<open>
  Whatever exit statuses the shell reports, the module runs to its end, and leaves this namespace
  and this trace: the three imported names followed by the nineteen configuration values,
  and the three imports, the shell command and the nineteen assignments.
\<close>

lemma conf_py_run:
  fixes w :: world
  defines "cfg \<equiv>
   [
     (''project'', VStr ''hyperion::mpl''),
     (''copyright'', VStr ''2024, Braxton Salyer <braxtonsalyer@gmail.com>''),
     (''author'', VStr ''Braxton Salyer <braxtonsalyer@gmail.com>''),
     (''extensions'', VList
       [ VStr ''sphinx.ext.autodoc'',
         VStr ''sphinx.ext.autosummary'',
         VStr ''sphinx.ext.intersphinx'',
         VStr ''sphinx.ext.autosectionlabel'',
         VStr ''sphinx.ext.todo'',
         VStr ''sphinx.ext.coverage'',
         VStr ''sphinx.ext.mathjax'',
         VStr ''sphinx.ext.ifconfig'',
         VStr ''sphinx.ext.viewcode'',
         VStr ''sphinx.ext.inheritance_diagram'',
         VStr ''sphinx_sitemap'',
         VStr ''breathe'',
         VStr ''myst_parser'' ]),
     (''myst_enable_extensions'', VList
       [ VStr ''amsmath'',
         VStr ''colon_fence'',
         VStr ''deflist'',
         VStr ''dollarmath'',
         VStr ''fieldlist'',
         VStr ''html_admonition'',
         VStr ''html_image'',
         VStr ''linkify'',
         VStr ''replacements'',
         VStr ''smartquotes'',
         VStr ''strikethrough'',
         VStr ''substitution'',
         VStr ''tasklist'' ]),
     (''templates_path'', VList [VStr ''_templates'']),
     (''exclude_patterns'', VList [VStr ''_build'', VStr ''Thumbs.db'', VStr ''.DS_Store'']),
     (''highlight_language'', VStr ''c++''),
     (''autosummary_generate'', VBool True),
     (''html_baseurl'', VStr ''braxtons12.github.io/hyperion_mpl''),
     (''html_theme'', VStr ''pydata_sphinx_theme''),
     (''html_theme_options'', VDict
       [ (''github_url'', VStr ''https://github.com/braxtons12/hyperion_mpl''),
         (''header_links_before_dropdown'', VInt 8),
         (''show_toc_level'', VInt 1),
         (''navigation_depth'', VInt 2),
         (''show_nav_level'', VInt 0),
         (''pygment_light_style'', VStr ''manni''),
         (''pygment_dark_style'', VStr ''one-dark''),
         (''navbar_start'', VList [VStr ''navbar-logo'', VStr ''theme-switcher'']),
         (''navbar_center'', VList [VStr ''navbar-nav'']),
         (''navbar_end'', VList [VStr ''navbar-icon-links'']),
         (''secondary_sidebar_items'', VList [VStr ''page-toc'']),
         (''footer_items'',
            VList [VStr ''copyright'', VStr ''last-updated'', VStr ''sphinx-version'']) ]),
     (''html_sidebars'', VDict
       [ (''**'',
            VList [VStr ''search-field'', VStr ''navbar-nav'', VStr ''sidebar-nav-bs'',
                   VStr ''sidebar-ethical-ads'']) ]),
     (''html_context'', VDict [(''default_mode'', VStr ''dark'')]),
     (''html_static_path'', VList [VStr ''_static'']),
     (''rst_prolog'', VStr rst_prolog_text),
     (''breathe_projects'', VDict [(''hyperion::mpl'', VStr ''_build/xml'')]),
     (''breathe_default_project'', VStr ''hyperion::mpl''),
     (''breathe_default_members'', VStr ''members'') ]"
  shows "conf_py w =
    Inr \<lparr>globals =
           [ (''StandaloneHTMLBuilder'', VMember ''sphinx.builders.html'' ''StandaloneHTMLBuilder''),
             (''subprocess'', VModule ''subprocess''),
             (''os'', VModule ''os'') ] @ cfg,
         trace =
           [ Imported ''sphinx.builders.html'', Imported ''subprocess'', Imported ''os'',
             Spawned ''doxygen Doxyfile'' ] @ map (\<lambda>(n, v). Assigned n v) cfg\<rparr>"
  unfolding cfg_def by code_simp

section \<open>Independence of the environment\<close>

text \<open>
  The environment enters an evaluation in one place only, the outcome of a call. A
  constant literal contains no call, so its evaluation is the same on every host.
\<close>

lemma literal_host_independent:
  "literal e \<Longrightarrow> eval h s e = eval h' s e"
  "list_all literal es \<Longrightarrow> eval_list h s es = eval_list h' s es"
  "list_all (\<lambda>(k, v). literal k \<and> literal v) kvs \<Longrightarrow>
     eval_items h s d kvs = eval_items h' s d kvs"
  "eval_kwargs h s kes = eval_kwargs h s kes"
proof (induction h s e and h s es and h s d kvs and h s kes
    rule: eval_eval_list_eval_items_eval_kwargs.induct)
  case (13 h s e es)
  then show ?case by (auto split: sum.splits)
next
  case (15 h s d k v kvs)
  then show ?case by (auto split: sum.splits pyval.splits)
qed simp_all

text \<open>
  The call of Doxygen is a statement: once the shell has run the command, the status it
  returns is dropped, and what the call leaves in the state does not mention the status.
\<close>

lemma doxygen_call_status_independent:
  assumes "h ''doxygen Doxyfile'' = Exited rc" and "h' ''doxygen Doxyfile'' = Exited rc'"
  shows "exec_stmt h s (SExpr doxygen_call) = exec_stmt h' s (SExpr doxygen_call)"
  using assms
  by (simp add: doxygen_call_def subprocess_call_def split: option.splits pyval.splits)

lemma declarative_stmt_status_independent:
  assumes "h ''doxygen Doxyfile'' = Exited rc" and "h' ''doxygen Doxyfile'' = Exited rc'"
    and "declarative st"
  shows "exec_stmt h s st = exec_stmt h' s st"
proof (cases st)
  case (SExpr e)
  with assms(3) have e: "e = doxygen_call" by simp
  show ?thesis unfolding SExpr e by (rule doxygen_call_status_independent [where h = h and h' = h', OF assms(1,2)])
next
  case (SAssign n e)
  with assms(3) have "literal e" by simp
  then have "eval h s e = eval h' s e" by (rule literal_host_independent(1))
  then show ?thesis unfolding SAssign by simp
qed (use assms(3) in simp_all)

lemma declarative_block_status_independent:
  assumes "h ''doxygen Doxyfile'' = Exited rc" and "h' ''doxygen Doxyfile'' = Exited rc'"
  shows "list_all declarative sts \<Longrightarrow> exec_block h s sts = exec_block h' s sts"
  by (induction sts arbitrary: s)
     (simp_all add: declarative_stmt_status_independent [where h = h and h' = h', OF assms]
        split: sum.splits)

lemma conf_module_all_declarative: "list_all declarative conf_module"
  by (simp add: conf_module_def doxygen_call_def)

text \<open>So the module runs alike on all hosts on which the shell runs the Doxygen command.\<close>

lemma conf_py_on_status_independent:
  assumes "h ''doxygen Doxyfile'' = Exited rc" and "h' ''doxygen Doxyfile'' = Exited rc'"
  shows "conf_py_on h = conf_py_on h'"
  unfolding conf_py_on_def
  by (rule declarative_block_status_independent
        [where h = h and h' = h', OF assms conf_module_all_declarative])

section \<open>Properties of the module\<close>




text \<open>
  C3, as the code has it: on every host on which the shell runs the Doxygen command and
  reports an exit status \<open>rc\<close>, zero or not, the evaluation runs to its end without an
  error, and after the shell command it performs all nineteen assignments, with the
  values, and leaving the namespace, of the run in which Doxygen exits with 0.
\<close>

theorem conf_completes_for_every_status:
  assumes "h ''doxygen Doxyfile'' = Exited rc"
  shows "\<exists>s s0. conf_py_on h = Inr s \<and> conf_py all_succeed = Inr s0 \<and>
      globals s = globals s0 \<and>
      assigned (after_spawn (trace s)) = assigned (after_spawn (trace s0)) \<and>
      map fst (assigned (after_spawn (trace s))) =
        [ ''project'', ''copyright'', ''author'', ''extensions'', ''myst_enable_extensions'',
          ''templates_path'', ''exclude_patterns'', ''highlight_language'',
          ''autosummary_generate'', ''html_baseurl'', ''html_theme'', ''html_theme_options'',
          ''html_sidebars'', ''html_context'', ''html_static_path'', ''rst_prolog'',
          ''breathe_projects'', ''breathe_default_project'', ''breathe_default_members'' ]"
proof -
  have ok: "started all_succeed ''doxygen Doxyfile'' = Exited 0"
    by (simp add: started_def all_succeed_def)
  have "conf_py_on h = conf_py_on (started all_succeed)"
    by (rule conf_py_on_status_independent
          [where h = h and h' = "started all_succeed", OF assms ok])
  then have "conf_py_on h = conf_py all_succeed"
    by (simp add: conf_py_def)
  then show ?thesis
    by (simp add: conf_py_run)
qed

text \<open>
  An instance with a non-zero status: without Doxygen the shell reports 127, and the
  evaluation still runs to its end with all nineteen assignments.
\<close>

theorem conf_completes_without_doxygen:
  "started doxygen_missing ''doxygen Doxyfile'' = Exited 127 \<and>
   (\<exists>s s0. conf_py_on (started doxygen_missing) = Inr s \<and> conf_py all_succeed = Inr s0 \<and>
      globals s = globals s0 \<and>
      assigned (after_spawn (trace s)) = assigned (after_spawn (trace s0)) \<and>
      map fst (assigned (after_spawn (trace s))) =
        [ ''project'', ''copyright'', ''author'', ''extensions'', ''myst_enable_extensions'',
          ''templates_path'', ''exclude_patterns'', ''highlight_language'',
          ''autosummary_generate'', ''html_baseurl'', ''html_theme'', ''html_theme_options'',
          ''html_sidebars'', ''html_context'', ''html_static_path'', ''rst_prolog'',
          ''breathe_projects'', ''breathe_default_project'', ''breathe_default_members'' ])"
proof -
  have st: "started doxygen_missing ''doxygen Doxyfile'' = Exited 127"
    by (simp add: started_def doxygen_missing_def)
  from conf_completes_for_every_status [where h = "started doxygen_missing", OF st] st
  show ?thesis
    by blast
qed

text \<open>
  C3 as stated, that a non-zero exit status is the only failure mode, fails: on the host
  where the shell cannot be started the call raises \<^verbatim>\<open>OSError\<close>, no exit status is
  returned, and the evaluation ends there, before any assignment.
\<close>

theorem conf_aborts_without_shell:
  "no_shell ''doxygen Doxyfile'' = NotStarted \<and>
   conf_py_on no_shell = Inl OSError \<and>
   assigned_values (conf_py_on no_shell) = []"
  by code_simp

text \<open>
  C4: the module has no function or class definition, no loop and no conditional; each
  of its statements is an import, an assignment of a constant literal, or the call of
  Doxygen, and that call is its only expression statement.
\<close>

theorem conf_module_no_logic:
  "filter compound conf_module = [] \<and>
   list_all declarative conf_module \<and>
   filter is_expr_stmt conf_module = [SExpr doxygen_call]"
  by (simp add: conf_module_def doxygen_call_def)

text \<open>
  C5: after evaluation, the configuration value \<^verbatim>\<open>project\<close> is the string
  "hyperion::mpl", the name of the library the site documents.
\<close>

theorem conf_project_name:
  "\<exists>s. conf_py w = Inr s \<and> map_of (globals s) ''project'' = Some (VStr ''hyperion::mpl'')"
  by (simp add: conf_py_run)

text \<open>
  C6: after evaluation, the list \<^verbatim>\<open>extensions\<close> contains "breathe", and the dictionary
  \<^verbatim>\<open>breathe_projects\<close> maps "hyperion::mpl" to the directory "_build/xml".
\<close>

theorem conf_breathe_integration:
  "\<exists>s xs d. conf_py w = Inr s \<and>
      map_of (globals s) ''extensions'' = Some (VList xs) \<and>
      VStr ''breathe'' \<in> set xs \<and>
      map_of (globals s) ''breathe_projects'' = Some (VDict d) \<and>
      map_of d ''hyperion::mpl'' = Some (VStr ''_build/xml'')"
  by (simp add: conf_py_run)

text \<open>
  C7: in the trace of every evaluation the Doxygen command stands before every
  assignment: nothing is assigned before it, all assignments come after it, and among
  them are those of \<^verbatim>\<open>breathe_projects\<close> and \<^verbatim>\<open>breathe_default_project\<close>.
\<close>

theorem conf_doxygen_before_config:
  "\<exists>s. conf_py w = Inr s \<and>
      trace s = before_spawn (trace s) @ Spawned ''doxygen Doxyfile'' # after_spawn (trace s) \<and>
      assigned (before_spawn (trace s)) = [] \<and>
      assigned (after_spawn (trace s)) = assigned (trace s) \<and>
      ''breathe_projects'' \<in> set (map fst (assigned (after_spawn (trace s)))) \<and>
      ''breathe_default_project'' \<in> set (map fst (assigned (after_spawn (trace s))))"
  by (simp add: conf_py_run)

text \<open>
  C8: after evaluation, \<^verbatim>\<open>breathe_default_project\<close> is the string "hyperion::mpl", and
  that string is a key of the dictionary \<^verbatim>\<open>breathe_projects\<close>.
\<close>

theorem conf_default_project_configured:
  "\<exists>s p d. conf_py w = Inr s \<and>
      map_of (globals s) ''breathe_default_project'' = Some (VStr p) \<and>
      p = ''hyperion::mpl'' \<and>
      map_of (globals s) ''breathe_projects'' = Some (VDict d) \<and>
      p \<in> set (map fst d)"
  by (simp add: conf_py_run)

text \<open>
  C9: the last statement assigns the parenthesised string \<^verbatim>\<open>('members')\<close>, which has no
  comma and so evaluates, in any state and on any host, to the string itself; after evaluation
  \<^verbatim>\<open>breathe_default_members\<close> is the string "members" and not a one-element tuple.
\<close>

theorem conf_default_members_is_string:
  "\<exists>s. conf_py w = Inr s \<and>
      last conf_module = SAssign ''breathe_default_members'' (EParen (EStr ''members'')) \<and>
      eval h s0 (EParen (EStr ''members'')) = Inr (VStr ''members'', s0) \<and>
      map_of (globals s) ''breathe_default_members'' = Some (VStr ''members'') \<and>
      map_of (globals s) ''breathe_default_members'' \<noteq> Some (VTuple [VStr ''members''])"
  by (simp add: conf_py_run conf_module_def)


end
